theory Spec2Isabelle
  imports Main "HOL-Library.Word" "HOL-Library.AList"
begin

section \<open>JavaScript strings\<close>

text \<open>
  A JavaScript string is a sequence of 16-bit UTF-16 code units; \<open>s.length\<close> counts
  code units. String literals of the source are ASCII and are written with \<open>js\<close>.
\<close>

type_synonym jschar = "16 word"
type_synonym jsstring = "jschar list"

definition js :: "string \<Rightarrow> jsstring" where
  "js s = map (\<lambda>c. of_nat (of_char c)) s"

text \<open>The character classes used by the regular expressions of the source.\<close>

definition isLower :: "jschar \<Rightarrow> bool" where
  "isLower c \<longleftrightarrow> 0x61 \<le> c \<and> c \<le> 0x7A"

definition isUpper :: "jschar \<Rightarrow> bool" where
  "isUpper c \<longleftrightarrow> 0x41 \<le> c \<and> c \<le> 0x5A"

definition isDigit :: "jschar \<Rightarrow> bool" where
  "isDigit c \<longleftrightarrow> 0x30 \<le> c \<and> c \<le> 0x39"

text \<open>ECMAScript LineTerminator: LF, CR, U+2028, U+2029. The dot matches anything else.\<close>

definition isLineTerminator :: "jschar \<Rightarrow> bool" where
  "isLineTerminator c \<longleftrightarrow> c = 0x0A \<or> c = 0x0D \<or> c = 0x2028 \<or> c = 0x2029"

definition isDot :: "jschar \<Rightarrow> bool" where
  "isDot c \<longleftrightarrow> \<not> isLineTerminator c"

text \<open>
  ECMAScript WhiteSpace and LineTerminator: what \<open>\s\<close> matches and what \<open>trim()\<close>
  removes. \<open>\S\<close> is the complement.
\<close>

definition isSpace :: "jschar \<Rightarrow> bool" where
  "isSpace c \<longleftrightarrow>
     c = 0x09 \<or> c = 0x0A \<or> c = 0x0B \<or> c = 0x0C \<or> c = 0x0D \<or> c = 0x20 \<or> c = 0xA0 \<or>
     c = 0x1680 \<or> (0x2000 \<le> c \<and> c \<le> 0x200A) \<or> c = 0x2028 \<or> c = 0x2029 \<or>
     c = 0x202F \<or> c = 0x205F \<or> c = 0x3000 \<or> c = 0xFEFF"

definition isNonSpace :: "jschar \<Rightarrow> bool" where
  "isNonSpace c \<longleftrightarrow> \<not> isSpace c"

definition trim :: "jsstring \<Rightarrow> jsstring" where
  "trim s = rev (dropWhile isSpace (rev (dropWhile isSpace s)))"

definition startsWith :: "jsstring \<Rightarrow> jsstring \<Rightarrow> bool" where
  "startsWith s p \<longleftrightarrow> take (length p) s = p"

section \<open>Regular expressions\<close>

text \<open>
  The fragment of ECMAScript regular expressions the source uses: a pattern is a
  sequence of items, each a character class, a character class under \<open>*\<close> or \<open>+\<close>,
  or a positive lookahead \<open>(?=...)\<close> holding a pattern.
  \<open>matchHere\<close> says whether the pattern matches at the start of the input, trying
  every length for a repetition as the backtracking matcher does; \<open>test\<close> is
  \<open>RegExp.prototype.test\<close> for a pattern without anchors: a match starting at some
  position of the input.
\<close>

datatype item =
    One "jschar \<Rightarrow> bool"
  | Many0 "jschar \<Rightarrow> bool"
  | Many1 "jschar \<Rightarrow> bool"
  | Lookahead "item list"

fun matchHere :: "item list \<Rightarrow> jsstring \<Rightarrow> bool" where
  "matchHere [] s = True"
| "matchHere (One p # r) [] = False"
| "matchHere (One p # r) (c # cs) = (p c \<and> matchHere r cs)"
| "matchHere (Many0 p # r) [] = matchHere r []"
| "matchHere (Many0 p # r) (c # cs) =
     ((p c \<and> matchHere (Many0 p # r) cs) \<or> matchHere r (c # cs))"
| "matchHere (Many1 p # r) [] = False"
| "matchHere (Many1 p # r) (c # cs) = (p c \<and> matchHere (Many0 p # r) cs)"
| "matchHere (Lookahead q # r) s = (matchHere q s \<and> matchHere r s)"

fun test :: "item list \<Rightarrow> jsstring \<Rightarrow> bool" where
  "test pat [] = matchHere pat []"
| "test pat (c # cs) = (matchHere pat (c # cs) \<or> test pat cs)"

section \<open>JavaScript values\<close>

text \<open>
  The values an \<open>unknown\<close> or \<open>any\<close> of the source can hold. Numbers are the integral
  ones (HTTP status codes); an object is its list of own properties.
\<close>

datatype jsval =
    JUndefined
  | JNull
  | JBool bool
  | JNum int
  | JStr jsstring
  | JObj "(string \<times> jsval) list"

datatype exn = TypeError

text \<open>
  \<open>v.k\<close> throws a TypeError on \<open>undefined\<close> and \<open>null\<close>; on an object it is the
  property or \<open>undefined\<close>; the properties the source reads (\<open>response\<close>, \<open>status\<close>,
  \<open>data\<close>, \<open>message\<close>) are \<open>undefined\<close> on every primitive.
\<close>

fun getProp :: "jsval \<Rightarrow> string \<Rightarrow> exn + jsval" where
  "getProp JUndefined k = Inl TypeError"
| "getProp JNull k = Inl TypeError"
| "getProp (JObj kvs) k = Inr (case map_of kvs k of None \<Rightarrow> JUndefined | Some v \<Rightarrow> v)"
| "getProp v k = Inr JUndefined"

text \<open>\<open>v?.k\<close> is \<open>undefined\<close> on \<open>undefined\<close> and \<open>null\<close> and never throws.\<close>

fun optProp :: "jsval \<Rightarrow> string \<Rightarrow> jsval" where
  "optProp (JObj kvs) k = (case map_of kvs k of None \<Rightarrow> JUndefined | Some v \<Rightarrow> v)"
| "optProp v k = JUndefined"

fun truthy :: "jsval \<Rightarrow> bool" where
  "truthy JUndefined = False"
| "truthy JNull = False"
| "truthy (JBool b) = b"
| "truthy (JNum n) = (n \<noteq> 0)"
| "truthy (JStr s) = (s \<noteq> [])"
| "truthy (JObj kvs) = True"

section \<open>Data transfer objects and session state (src/lib/types.ts)\<close>

datatype UserRole = ROLE_CUSTOMER | ROLE_EMPLOYEE | ROLE_ADMIN

fun roleString :: "UserRole \<Rightarrow> jsstring" where
  "roleString ROLE_CUSTOMER = js ''ROLE_CUSTOMER''"
| "roleString ROLE_EMPLOYEE = js ''ROLE_EMPLOYEE''"
| "roleString ROLE_ADMIN = js ''ROLE_ADMIN''"

record UserResponse =
  id :: int
  firstName :: jsstring
  lastName :: jsstring
  email :: jsstring
  role :: UserRole
  enabled :: bool

record AuthState =
  token :: "jsstring option"
  user :: "UserResponse option"
  isLoading :: bool
  isAuthenticated :: bool

section \<open>Session store\<close>

text \<open>
  Modelled from the spec: the store module \<open>@/lib/store/auth\<close> (\<open>useAuthStore\<close>,
  \<open>useAuth\<close>, \<open>useAuthActions\<close>, \<open>useAuthRole\<close>) is imported by the sources but is not
  among them. The spec: the session is "created empty at process start";
  "\<open>login(token, user)\<close> sets both fields and marks authenticated; \<open>logout()\<close> clears
  both; \<open>updateUser(user)\<close> replaces the user record only"; \<open>setLoading(bool)\<close> tracks
  in-flight authentication checks; \<open>isAuthenticated\<close> is "true iff both \<open>token\<close> and
  \<open>user\<close> are present", so clearing both leaves it false. Each mutator is one
  atomic update of the state.
\<close>

definition initialAuthState :: AuthState where
  "initialAuthState = \<lparr>token = None, user = None, isLoading = False, isAuthenticated = False\<rparr>"

definition login :: "jsstring \<Rightarrow> UserResponse \<Rightarrow> AuthState \<Rightarrow> AuthState" where
  "login t u s = s\<lparr>token := Some t, user := Some u, isAuthenticated := True\<rparr>"

definition logout :: "AuthState \<Rightarrow> AuthState" where
  "logout s = s\<lparr>token := None, user := None, isAuthenticated := False\<rparr>"

definition updateUser :: "UserResponse \<Rightarrow> AuthState \<Rightarrow> AuthState" where
  "updateUser u s = s\<lparr>user := Some u\<rparr>"

definition setLoading :: "bool \<Rightarrow> AuthState \<Rightarrow> AuthState" where
  "setLoading b s = s\<lparr>isLoading := b\<rparr>"

text \<open>
  Modelled from the spec: \<open>hasRole\<close> of \<open>useAuthRole\<close>, "case-sensitive exact match"
  of the asked role against the role of the session's user.
\<close>

definition hasRole :: "AuthState \<Rightarrow> jsstring \<Rightarrow> bool" where
  "hasRole s r = (case user s of None \<Rightarrow> False | Some u \<Rightarrow> roleString (role u) = r)"

datatype store_call =
    Login jsstring UserResponse
  | Logout
  | UpdateUser UserResponse
  | SetLoading bool

fun call :: "store_call \<Rightarrow> AuthState \<Rightarrow> AuthState" where
  "call (Login t u) s = login t u s"
| "call Logout s = logout s"
| "call (UpdateUser u) s = updateUser u s"
| "call (SetLoading b) s = setLoading b s"

text \<open>The states a reader can observe: the starting one and the one after each call.\<close>

fun observable :: "AuthState \<Rightarrow> store_call list \<Rightarrow> AuthState list" where
  "observable s [] = [s]"
| "observable s (c # cs) = s # observable (call c s) cs"

section \<open>The running page\<close>

text \<open>
  What the code acts on besides its arguments: the session store, whether a \<open>window\<close>
  exists (it does not during server-side rendering), and the effects performed so far,
  oldest first.
\<close>

datatype effect =
    Called_logout
  | Set_location_href jsstring
  | Console_error string
  | Router_push jsstring

record world =
  authStore :: AuthState
  hasWindow :: bool
  effects :: "effect list"

definition perform :: "effect \<Rightarrow> 'a world_scheme \<Rightarrow> 'a world_scheme" where
  "perform e w = w\<lparr>effects := effects w @ [e]\<rparr>"

definition callLogout :: "'a world_scheme \<Rightarrow> 'a world_scheme" where
  "callLogout w = perform Called_logout (w\<lparr>authStore := logout (authStore w)\<rparr>)"

section \<open>HTTP client (the second document of src/lib/types.ts)\<close>


text \<open>
  The handler of rejected responses. It ends in \<open>Promise.reject(error)\<close>, or throws if
  reading \<open>error.response\<close> does.
\<close>

datatype outcome = Promise_reject jsval | Throw exn

definition onRejected :: "jsval \<Rightarrow> world \<Rightarrow> world \<times> outcome" where
  "onRejected error w =
     (case getProp error ''response'' of
        Inl e \<Rightarrow> (w, Throw e)
      | Inr response \<Rightarrow>
          (let w = (if optProp response ''status'' = JNum 401 then
                      (let w = callLogout w
                       in if hasWindow w then perform (Set_location_href (js ''/login'')) w
                          else w)
                    else w);
               w = (if optProp response ''status'' = JNum 403 then
                      perform (Console_error ''Access forbidden: Insufficient permissions'') w
                    else w);
               w = (if \<not> truthy response then
                      perform
                        (Console_error ''Network error: Please check your internet connection'') w
                    else w)
           in (w, Promise_reject error)))"

text \<open>The handler of fulfilled responses returns the response.\<close>

definition onFulfilled :: "jsval \<Rightarrow> world \<Rightarrow> world \<times> jsval" where
  "onFulfilled response w = (w, response)"


section \<open>Route guard (src/unnamed/part_001)\<close>

record 'n ProtectedRouteProps =
  children :: 'n
  requiredRole :: "jsstring list"
  fallback :: "'n option"

text \<open>
  A mounted guard: the page with the component's state cell \<open>isInitialized\<close>, which
  starts false; its \<open>effects\<close> are those of this mount.
  \<open>fallback\<close> is \<open>None\<close> when the property is left out or falsy.
\<close>

record guard = world +
  isInitialized :: bool

definition mount :: "world \<Rightarrow> guard" where
  "mount w = \<lparr>authStore = authStore w, hasWindow = hasWindow w, effects = [],
              isInitialized = False\<rparr>"

text \<open>
  One run of the effect, \<open>initializeAuth\<close>, with the values of \<open>token\<close> and \<open>user\<close>
  of the render it belongs to. The argument is what the HTTP library has for
  \<open>userApi.getProfile()\<close> should it be called: the profile, or the error of the request.
  An error passes through the client's handler of rejected responses before
  \<open>getProfile\<close> throws, so the handler's effects (a logout and a navigation on status
  401, a line on the console) come first and the \<open>catch\<close> block follows; a re-render
  comes only after the block has ended.
\<close>

definition initializeAuth :: "jsval + UserResponse \<Rightarrow> guard \<Rightarrow> guard" where
  "initializeAuth getProfile g0 =
     (let tok = token (authStore g0);
          usr = user (authStore g0);
          g = g0\<lparr>authStore := setLoading True (authStore g0)\<rparr>
      in case tok of
           None \<Rightarrow>
             (let g = perform (Router_push (js ''/login'')) g
              in g\<lparr>authStore := setLoading False (authStore g)\<rparr>)
         | Some t \<Rightarrow>
             if t = [] then
               (let g = perform (Router_push (js ''/login'')) g
                in g\<lparr>authStore := setLoading False (authStore g)\<rparr>)
             else if usr = None then
               (case getProfile of
                  Inr userData \<Rightarrow>
                    (let g = g\<lparr>authStore := login t userData (authStore g)\<rparr>;
                         g = g\<lparr>isInitialized := True\<rparr>
                     in g\<lparr>authStore := setLoading False (authStore g)\<rparr>)
                | Inl error \<Rightarrow>
                    (let (w, thrown) = onRejected error (world.truncate g);
                         g = g\<lparr>authStore := authStore w, effects := effects w\<rparr>;
                         g = perform (Console_error ''Failed to fetch user profile:'') g;
                         g = callLogout g;
                         g = perform (Router_push (js ''/login'')) g
                     in g\<lparr>authStore := setLoading False (authStore g)\<rparr>))
             else
               (let g = g\<lparr>isInitialized := True\<rparr>
                in g\<lparr>authStore := setLoading False (authStore g)\<rparr>))"

text \<open>
  The effect runs after the first render and again after every render in which one of
  its dependencies changed. Of the dependencies
  \<open>[token, user, login, logout, setLoading, router]\<close> the store's actions and the router
  are the same objects in every render, so a further run is due exactly when the run
  before it changed \<open>token\<close> or \<open>user\<close>.
\<close>

function runEffects :: "jsval + UserResponse \<Rightarrow> guard \<Rightarrow> guard" where
  "runEffects getProfile g =
     (let g' = initializeAuth getProfile g
      in if token (authStore g') = token (authStore g) \<and> user (authStore g') = user (authStore g)
         then g'
         else runEffects getProfile g')"
  by pat_completeness auto
termination
proof (relation "measure (\<lambda>(f, g). case token (authStore g) of None \<Rightarrow> 0
          | Some t \<Rightarrow> if t \<noteq> [] \<and> user (authStore g) = None then 1 else 0)")
  show "wf (measure (\<lambda>(f, g). case token (authStore g) of None \<Rightarrow> 0
          | Some t \<Rightarrow> if t \<noteq> [] \<and> user (authStore g) = None then 1 else (0::nat)))"
    by simp
next
  fix getProfile :: "jsval + UserResponse" and g x :: guard
  assume x: "x = initializeAuth getProfile g"
    and changed: "\<not> (token (authStore x) = token (authStore g) \<and>
                      user (authStore x) = user (authStore g))"
  show "((getProfile, x), (getProfile, g)) \<in> measure (\<lambda>(f, g). case token (authStore g) of None \<Rightarrow> 0
          | Some t \<Rightarrow> if t \<noteq> [] \<and> user (authStore g) = None then 1 else (0::nat))"
    using changed unfolding x
    by (auto simp: initializeAuth_def Let_def perform_def callLogout_def setLoading_def
        login_def logout_def split: option.splits sum.splits if_splits prod.splits)
qed

declare runEffects.simps [simp del]

datatype 'n view =
    LoadingSpinner
  | RenderNull
  | Fallback 'n
  | AccessForbidden
  | Children 'n

definition render :: "'n ProtectedRouteProps \<Rightarrow> guard \<Rightarrow> 'n view" where
  "render props g =
     (if \<not> isInitialized g then LoadingSpinner
      else if \<not> isAuthenticated (authStore g) \<or> user (authStore g) = None then RenderNull
      else if length (requiredRole props) > 0 \<and>
              \<not> list_ex (\<lambda>r. hasRole (authStore g) r) (requiredRole props) then
        (case fallback props of Some f \<Rightarrow> Fallback f | None \<Rightarrow> AccessForbidden)
      else Children (children props))"

text \<open>
  The states of the spec's state machine, read off the guard: it is initializing while
  \<open>isInitialized\<close> is false and no redirect to the login page has been issued, and
  unauthenticated once one has; when initialized, the branch \<open>render\<close> takes names the
  state.
\<close>

datatype guard_state = Initializing | Unauthenticated | Forbidden | Authorized

definition guardState :: "'n ProtectedRouteProps \<Rightarrow> guard \<Rightarrow> guard_state" where
  "guardState props g =
     (if \<not> isInitialized g then
        (if List.member (effects g) (Router_push (js ''/login'')) then Unauthenticated
         else Initializing)
      else if \<not> isAuthenticated (authStore g) \<or> user (authStore g) = None then Unauthenticated
      else if length (requiredRole props) > 0 \<and>
              \<not> list_ex (\<lambda>r. hasRole (authStore g) r) (requiredRole props) then Forbidden
      else Authorized)"

text \<open>The wrappers \<open>AdminOnly\<close>, \<open>EmployeeOnly\<close> and \<open>AuthenticatedOnly\<close>, as the properties they pass.\<close>

definition AdminOnly :: "'n \<Rightarrow> 'n ProtectedRouteProps" where
  "AdminOnly c = \<lparr>children = c, requiredRole = [js ''ROLE_ADMIN''], fallback = None\<rparr>"

definition EmployeeOnly :: "'n \<Rightarrow> 'n ProtectedRouteProps" where
  "EmployeeOnly c =
     \<lparr>children = c, requiredRole = [js ''ROLE_EMPLOYEE'', js ''ROLE_ADMIN''], fallback = None\<rparr>"

definition AuthenticatedOnly :: "'n \<Rightarrow> 'n ProtectedRouteProps" where
  "AuthenticatedOnly c = \<lparr>children = c, requiredRole = [], fallback = None\<rparr>"

section \<open>Route middleware (src/middleware.ts)\<close>

text \<open>What a middleware can answer; the source only ever builds \<open>NextResponse.next()\<close>.\<close>

datatype next_response =
    NextResponse_next
  | NextResponse_redirect jsstring
  | NextResponse_rewrite jsstring
  | NextResponse_json int

definition protectedRoutes :: "jsstring list" where
  "protectedRoutes = [js ''/profile'', js ''/admin'', js ''/employee'', js ''/customer'']"

definition adminRoutes :: "jsstring list" where
  "adminRoutes = [js ''/admin'']"

definition employeeRoutes :: "jsstring list" where
  "employeeRoutes = [js ''/employee'', js ''/admin'']"

definition publicRoutes :: "jsstring list" where
  "publicRoutes = [js ''/'', js ''/login'', js ''/register'', js ''/about'', js ''/contact'']"

definition middleware :: "jsstring \<Rightarrow> next_response" where
  "middleware pathname =
     (let isProtectedRoute = list_ex (\<lambda>route. startsWith pathname route) protectedRoutes;
          isAdminRoute = list_ex (\<lambda>route. startsWith pathname route) adminRoutes;
          isEmployeeRoute = list_ex (\<lambda>route. startsWith pathname route) employeeRoutes
      in if isProtectedRoute \<and> (pathname = js ''/login'' \<or> pathname = js ''/register'')
         then NextResponse_next
         else if List.member publicRoutes pathname then NextResponse_next
         else NextResponse_next)"

section \<open>Form validators\<close>

text \<open>
  An error object \<open>Record<string, string>\<close> is an association list in insertion order;
  \<open>errors.k = v\<close> is \<open>setError k v\<close> and \<open>Object.keys(errors).length\<close> is its length.
\<close>

type_synonym errors = "(string \<times> string) list"

definition setError :: "string \<Rightarrow> string \<Rightarrow> errors \<Rightarrow> errors" where
  "setError k v errs = AList.update k v errs"

definition getError :: "errors \<Rightarrow> string \<Rightarrow> string option" where
  "getError errs k = map_of errs k"

subsection \<open>Registration (src/components/auth/RegisterForm.tsx)\<close>

record RegisterRequest =
  firstName :: jsstring
  lastName :: jsstring
  email :: jsstring
  password :: jsstring

record formData = RegisterRequest +
  confirmPassword :: jsstring

text \<open>\<open>/\S+@\S+\.\S+/\<close>\<close>

definition emailRegex :: "item list" where
  "emailRegex = [Many1 isNonSpace, One (\<lambda>c. c = 0x40), Many1 isNonSpace,
                 One (\<lambda>c. c = 0x2E), Many1 isNonSpace]"

text \<open>\<open>/(?=.*[a-z])(?=.*[A-Z])(?=.*\d)/\<close>\<close>

definition strengthRegex :: "item list" where
  "strengthRegex = [Lookahead [Many0 isDot, One isLower],
                    Lookahead [Many0 isDot, One isUpper],
                    Lookahead [Many0 isDot, One isDigit]]"

text \<open>
  \<open>validateForm\<close> fills \<open>newErrors\<close> block by block; each block of the source is a
  function from the errors so far to the errors after it.
\<close>

definition firstNameValidation :: "formData \<Rightarrow> errors \<Rightarrow> errors" where
  "firstNameValidation fd newErrors =
     (if trim (firstName fd) = [] then
        setError ''firstName'' ''First name is required'' newErrors
      else if length (trim (firstName fd)) < 2 then
        setError ''firstName'' ''First name must be at least 2 characters'' newErrors
      else newErrors)"

definition lastNameValidation :: "formData \<Rightarrow> errors \<Rightarrow> errors" where
  "lastNameValidation fd newErrors =
     (if trim (lastName fd) = [] then
        setError ''lastName'' ''Last name is required'' newErrors
      else if length (trim (lastName fd)) < 2 then
        setError ''lastName'' ''Last name must be at least 2 characters'' newErrors
      else newErrors)"

definition emailValidation :: "formData \<Rightarrow> errors \<Rightarrow> errors" where
  "emailValidation fd newErrors =
     (if email fd = [] then
        setError ''email'' ''Email is required'' newErrors
      else if \<not> test emailRegex (email fd) then
        setError ''email'' ''Email is invalid'' newErrors
      else newErrors)"

definition passwordValidation :: "formData \<Rightarrow> errors \<Rightarrow> errors" where
  "passwordValidation fd newErrors =
     (if password fd = [] then
        setError ''password'' ''Password is required'' newErrors
      else if length (password fd) < 8 then
        setError ''password'' ''Password must be at least 8 characters'' newErrors
      else if \<not> test strengthRegex (password fd) then
        setError ''password''
          ''Password must contain at least one uppercase letter, one lowercase letter, and one number''
          newErrors
      else newErrors)"

definition confirmPasswordValidation :: "formData \<Rightarrow> errors \<Rightarrow> errors" where
  "confirmPasswordValidation fd newErrors =
     (if confirmPassword fd = [] then
        setError ''confirmPassword'' ''Please confirm your password'' newErrors
      else if password fd \<noteq> confirmPassword fd then
        setError ''confirmPassword'' ''Passwords do not match'' newErrors
      else newErrors)"

definition validateFormErrors :: "formData \<Rightarrow> errors" where
  "validateFormErrors fd =
     confirmPasswordValidation fd
       (passwordValidation fd
         (emailValidation fd
           (lastNameValidation fd
             (firstNameValidation fd []))))"

text \<open>
  \<open>validateForm\<close> stores the errors in the component state and returns whether there
  are none.
\<close>

definition validateForm :: "formData \<Rightarrow> errors \<times> bool" where
  "validateForm fd = (validateFormErrors fd, length (validateFormErrors fd) = 0)"

subsection \<open>Password change (src/components/profile/ProfileManager.tsx)\<close>

record ChangePasswordRequest =
  currentPassword :: jsstring
  newPassword :: jsstring

text \<open>
  The component keeps \<open>passwordData\<close> and \<open>confirmPassword\<close> in two state cells;
  \<open>validatePassword\<close> reads both and fills \<open>errors\<close> in four blocks.
\<close>

definition currentPasswordCheck :: "ChangePasswordRequest \<Rightarrow> errors \<Rightarrow> errors" where
  "currentPasswordCheck passwordData errors =
     (if currentPassword passwordData = [] then
        setError ''currentPassword'' ''Current password is required'' errors
      else errors)"

definition newPasswordCheck :: "ChangePasswordRequest \<Rightarrow> errors \<Rightarrow> errors" where
  "newPasswordCheck passwordData errors =
     (if newPassword passwordData = [] then
        setError ''newPassword'' ''New password is required'' errors
      else if length (newPassword passwordData) < 8 then
        setError ''newPassword'' ''Password must be at least 8 characters'' errors
      else if \<not> test strengthRegex (newPassword passwordData) then
        setError ''newPassword''
          ''Password must contain at least one uppercase letter, one lowercase letter, and one number''
          errors
      else errors)"

definition confirmPasswordCheck :: "ChangePasswordRequest \<Rightarrow> jsstring \<Rightarrow> errors \<Rightarrow> errors" where
  "confirmPasswordCheck passwordData confirm errors =
     (if confirm = [] then
        setError ''confirmPassword'' ''Please confirm your new password'' errors
      else if newPassword passwordData \<noteq> confirm then
        setError ''confirmPassword'' ''Passwords do not match'' errors
      else errors)"

definition samePasswordCheck :: "ChangePasswordRequest \<Rightarrow> errors \<Rightarrow> errors" where
  "samePasswordCheck passwordData errors =
     (if currentPassword passwordData = newPassword passwordData then
        setError ''newPassword'' ''New password must be different from current password'' errors
      else errors)"

definition validatePasswordErrors :: "ChangePasswordRequest \<Rightarrow> jsstring \<Rightarrow> errors" where
  "validatePasswordErrors passwordData confirm =
     samePasswordCheck passwordData
       (confirmPasswordCheck passwordData confirm
         (newPasswordCheck passwordData
           (currentPasswordCheck passwordData [])))"

definition validatePassword :: "ChangePasswordRequest \<Rightarrow> jsstring \<Rightarrow> errors \<times> bool" where
  "validatePassword passwordData confirm =
     (validatePasswordErrors passwordData confirm,
      length (validatePasswordErrors passwordData confirm) = 0)"

section \<open>Notions of the specification\<close>

text \<open>
  The status of the response an error carries, \<open>error.response?.status\<close>, read without
  throwing.
\<close>

definition responseStatus :: "jsval \<Rightarrow> jsval" where
  "responseStatus error = optProp (optProp error ''response'') ''status''"






text \<open>
  The shape \<open>local@domain.tld\<close>: three non-empty runs of non-space characters, the
  first two separated by \<open>@\<close> and the last two by a dot. A string is of the shape, or
  merely contains a piece of the shape.
\<close>

definition emailShape :: "jsstring \<Rightarrow> bool" where
  "emailShape s \<longleftrightarrow>
     (\<exists>l d t. s = l @ 0x40 # d @ 0x2E # t \<and> l \<noteq> [] \<and> d \<noteq> [] \<and> t \<noteq> [] \<and>
        list_all isNonSpace l \<and> list_all isNonSpace d \<and> list_all isNonSpace t)"

definition containsEmailShape :: "jsstring \<Rightarrow> bool" where
  "containsEmailShape s \<longleftrightarrow> (\<exists>pre mid post. s = pre @ mid @ post \<and> emailShape mid)"

section \<open>Scenarios\<close>

text \<open>
  The inputs of the spec's scenarios: a customer, the session of that customer logged
  in with token \<open>abc\<close>, a page in the browser and one rendered on the server, and the
  errors the HTTP library builds for a response with a status and a body, and for a
  request that got no response.
\<close>

definition customer :: UserResponse where
  "customer = \<lparr>UserResponse.id = 1, UserResponse.firstName = js ''Ann'',
     UserResponse.lastName = js ''Lee'', UserResponse.email = js ''ann@lee.io'',
     role = ROLE_CUSTOMER, enabled = True\<rparr>"

definition customerSession :: AuthState where
  "customerSession =
     \<lparr>token = Some (js ''abc''), user = Some customer, isLoading = False, isAuthenticated = True\<rparr>"

definition inBrowser :: "AuthState \<Rightarrow> world" where
  "inBrowser s = \<lparr>authStore = s, hasWindow = True, effects = []\<rparr>"

definition onServer :: "AuthState \<Rightarrow> world" where
  "onServer s = \<lparr>authStore = s, hasWindow = False, effects = []\<rparr>"

definition statusError :: "int \<Rightarrow> jsstring \<Rightarrow> jsval" where
  "statusError n body =
     JObj [(''isAxiosError'', JBool True),
           (''message'', JStr (js ''Request failed'')),
           (''response'', JObj [(''status'', JNum n), (''data'', JStr body)])]"




section \<open>The middleware lets every request through\<close>

text \<open>
  Claim C10. The route middleware never blocks or redirects: whatever the path of the
  request, the protected paths \<open>/profile\<close>, \<open>/admin\<close>, \<open>/employee\<close> and \<open>/customer\<close>
  among them, \<open>middleware\<close> answers \<open>NextResponse.next()\<close>.
\<close>

theorem middleware_pass_through: "middleware pathname = NextResponse_next"
  by (simp add: middleware_def Let_def)

section \<open>What the regular expressions accept\<close>

lemma matchHere_One:
  "matchHere (One p # r) s \<longleftrightarrow> (\<exists>c ys. s = c # ys \<and> p c \<and> matchHere r ys)"
  by (cases s) simp_all

lemma matchHere_Many0:
  "matchHere (Many0 p # r) s \<longleftrightarrow> (\<exists>xs ys. s = xs @ ys \<and> list_all p xs \<and> matchHere r ys)"
proof (induction s)
  case Nil
  then show ?case by simp
next
  case (Cons c cs)
  show ?case
  proof
    assume "matchHere (Many0 p # r) (c # cs)"
    then consider "p c" "matchHere (Many0 p # r) cs" | "matchHere r (c # cs)" by auto
    then show "\<exists>xs ys. c # cs = xs @ ys \<and> list_all p xs \<and> matchHere r ys"
    proof cases
      case 1
      with Cons.IH obtain xs ys where "cs = xs @ ys" "list_all p xs" "matchHere r ys" by blast
      with 1 have "c # cs = (c # xs) @ ys \<and> list_all p (c # xs) \<and> matchHere r ys" by simp
      then show ?thesis by blast
    next
      case 2
      then have "c # cs = [] @ (c # cs) \<and> list_all p [] \<and> matchHere r (c # cs)" by simp
      then show ?thesis by blast
    qed
  next
    assume "\<exists>xs ys. c # cs = xs @ ys \<and> list_all p xs \<and> matchHere r ys"
    then obtain xs ys where *: "c # cs = xs @ ys" "list_all p xs" "matchHere r ys" by blast
    show "matchHere (Many0 p # r) (c # cs)"
    proof (cases xs)
      case Nil
      with * have "ys = c # cs" by simp
      with *(3) show ?thesis by simp
    next
      case (Cons x xs')
      with * have "x = c" "cs = xs' @ ys" "p c" "list_all p xs'" by auto
      with *(3) Cons.IH have "matchHere (Many0 p # r) cs" by blast
      with \<open>p c\<close> show ?thesis by simp
    qed
  qed
qed

lemma matchHere_Many1:
  "matchHere (Many1 p # r) s \<longleftrightarrow>
     (\<exists>xs ys. s = xs @ ys \<and> xs \<noteq> [] \<and> list_all p xs \<and> matchHere r ys)"
proof (cases s)
  case Nil
  then show ?thesis by simp
next
  case (Cons c cs)
  show ?thesis
  proof
    assume "matchHere (Many1 p # r) s"
    with Cons have "p c" "matchHere (Many0 p # r) cs" by auto
    then obtain xs ys where "cs = xs @ ys" "list_all p xs" "matchHere r ys"
      using matchHere_Many0 by blast
    with Cons \<open>p c\<close> have "s = (c # xs) @ ys \<and> c # xs \<noteq> [] \<and> list_all p (c # xs) \<and> matchHere r ys"
      by simp
    then show "\<exists>xs ys. s = xs @ ys \<and> xs \<noteq> [] \<and> list_all p xs \<and> matchHere r ys" by blast
  next
    assume "\<exists>xs ys. s = xs @ ys \<and> xs \<noteq> [] \<and> list_all p xs \<and> matchHere r ys"
    then obtain xs ys where *: "s = xs @ ys" "xs \<noteq> []" "list_all p xs" "matchHere r ys" by blast
    then obtain x xs' where xs: "xs = x # xs'" by (cases xs) auto
    with * Cons have "x = c" "cs = xs' @ ys" "p c" "list_all p xs'" by auto
    with *(4) have "matchHere (Many0 p # r) cs" using matchHere_Many0 by blast
    with Cons \<open>p c\<close> show "matchHere (Many1 p # r) s" by simp
  qed
qed

lemma test_iff: "test pat s \<longleftrightarrow> (\<exists>pre ys. s = pre @ ys \<and> matchHere pat ys)"
proof (induction s)
  case Nil
  then show ?case by simp
next
  case (Cons c cs)
  show ?case
  proof
    assume "test pat (c # cs)"
    then consider "matchHere pat (c # cs)" | "test pat cs" by auto
    then show "\<exists>pre ys. c # cs = pre @ ys \<and> matchHere pat ys"
    proof cases
      case 1
      then have "c # cs = [] @ (c # cs) \<and> matchHere pat (c # cs)" by simp
      then show ?thesis by blast
    next
      case 2
      with Cons.IH obtain pre ys where "cs = pre @ ys" "matchHere pat ys" by blast
      then have "c # cs = (c # pre) @ ys \<and> matchHere pat ys" by simp
      then show ?thesis by blast
    qed
  next
    assume "\<exists>pre ys. c # cs = pre @ ys \<and> matchHere pat ys"
    then obtain pre ys where *: "c # cs = pre @ ys" "matchHere pat ys" by blast
    show "test pat (c # cs)"
    proof (cases pre)
      case Nil
      with * have "ys = c # cs" by simp
      with *(2) show ?thesis by simp
    next
      case (Cons x pre')
      with * have "cs = pre' @ ys" by simp
      with *(2) Cons.IH have "test pat cs" by blast
      then show ?thesis by simp
    qed
  qed
qed


lemma matchHere_emailRegex: "matchHere emailRegex s \<longleftrightarrow> (\<exists>mid post. s = mid @ post \<and> emailShape mid)"
proof
  assume "matchHere emailRegex s"
  then obtain l r1 where 1: "s = l @ r1" "l \<noteq> []" "list_all isNonSpace l"
      "matchHere [One (\<lambda>c. c = 0x40), Many1 isNonSpace, One (\<lambda>c. c = 0x2E), Many1 isNonSpace] r1"
    unfolding emailRegex_def matchHere_Many1 by blast
  then obtain r2 where 2: "r1 = 0x40 # r2"
      "matchHere [Many1 isNonSpace, One (\<lambda>c. c = 0x2E), Many1 isNonSpace] r2"
    unfolding matchHere_One by blast
  then obtain d r3 where 3: "r2 = d @ r3" "d \<noteq> []" "list_all isNonSpace d"
      "matchHere [One (\<lambda>c. c = 0x2E), Many1 isNonSpace] r3"
    unfolding matchHere_Many1 by blast
  then obtain r4 where 4: "r3 = 0x2E # r4" "matchHere [Many1 isNonSpace] r4"
    unfolding matchHere_One by blast
  then obtain t post where 5: "r4 = t @ post" "t \<noteq> []" "list_all isNonSpace t"
    unfolding matchHere_Many1 by blast
  have "emailShape (l @ 0x40 # d @ 0x2E # t)"
    unfolding emailShape_def using 1 3 5 by blast
  moreover have "s = (l @ 0x40 # d @ 0x2E # t) @ post"
    using 1 2 3 4 5 by simp
  ultimately show "\<exists>mid post. s = mid @ post \<and> emailShape mid" by blast
next
  assume "\<exists>mid post. s = mid @ post \<and> emailShape mid"
  then obtain mid post l d t where *: "s = mid @ post" "mid = l @ 0x40 # d @ 0x2E # t"
      "l \<noteq> []" "d \<noteq> []" "t \<noteq> []" "list_all isNonSpace l" "list_all isNonSpace d" "list_all isNonSpace t"
    unfolding emailShape_def by blast
  have 5: "matchHere [Many1 isNonSpace] (t @ post)"
    unfolding matchHere_Many1 using * by auto
  have 4: "matchHere [One (\<lambda>c. c = 0x2E), Many1 isNonSpace] (0x2E # t @ post)"
    using 5 by simp
  have 3: "matchHere [Many1 isNonSpace, One (\<lambda>c. c = 0x2E), Many1 isNonSpace] (d @ 0x2E # t @ post)"
    unfolding matchHere_Many1 [of _ "[One (\<lambda>c. c = 0x2E), Many1 isNonSpace]"] using 4 * by blast
  have 2: "matchHere [One (\<lambda>c. c = 0x40), Many1 isNonSpace, One (\<lambda>c. c = 0x2E), Many1 isNonSpace]
             (0x40 # d @ 0x2E # t @ post)"
    using 3 by simp
  have "matchHere emailRegex (l @ 0x40 # d @ 0x2E # t @ post)"
    unfolding emailRegex_def
      matchHere_Many1 [of _ "[One (\<lambda>c. c = 0x40), Many1 isNonSpace, One (\<lambda>c. c = 0x2E), Many1 isNonSpace]"]
    using 2 * by blast
  then show "matchHere emailRegex s" using * by simp
qed

lemma test_emailRegex: "test emailRegex s \<longleftrightarrow> containsEmailShape s"
  unfolding test_iff matchHere_emailRegex containsEmailShape_def by blast

section \<open>Form validators\<close>

lemma getError_setError:
  "getError (setError k v errs) k' = (if k' = k then Some v else getError errs k')"
  by (simp add: getError_def setError_def update_conv')

lemma getError_Nil: "getError [] k = None"
  by (simp add: getError_def)

lemma getError_firstNameValidation:
  "k \<noteq> ''firstName'' \<Longrightarrow> getError (firstNameValidation fd e) k = getError e k"
  by (simp add: firstNameValidation_def getError_setError)

lemma getError_lastNameValidation:
  "k \<noteq> ''lastName'' \<Longrightarrow> getError (lastNameValidation fd e) k = getError e k"
  by (simp add: lastNameValidation_def getError_setError)

lemma getError_emailValidation:
  "k \<noteq> ''email'' \<Longrightarrow> getError (emailValidation fd e) k = getError e k"
  by (simp add: emailValidation_def getError_setError)

lemma getError_passwordValidation:
  "k \<noteq> ''password'' \<Longrightarrow> getError (passwordValidation fd e) k = getError e k"
  by (simp add: passwordValidation_def getError_setError)

lemma getError_confirmPasswordValidation:
  "k \<noteq> ''confirmPassword'' \<Longrightarrow> getError (confirmPasswordValidation fd e) k = getError e k"
  by (simp add: confirmPasswordValidation_def getError_setError)

lemma getError_email:
  "getError (validateFormErrors fd) ''email'' =
      (if email fd = [] then Some ''Email is required''
       else if \<not> test emailRegex (email fd) then Some ''Email is invalid'' else None)"
proof -
  have "getError (validateFormErrors fd) ''email'' =
        getError (emailValidation fd (lastNameValidation fd (firstNameValidation fd []))) ''email''"
    by (simp add: validateFormErrors_def getError_confirmPasswordValidation
        getError_passwordValidation)
  also have "\<dots> = (if email fd = [] then Some ''Email is required''
       else if \<not> test emailRegex (email fd) then Some ''Email is invalid''
       else getError (lastNameValidation fd (firstNameValidation fd [])) ''email'')"
    by (simp add: emailValidation_def getError_setError)
  also have "getError (lastNameValidation fd (firstNameValidation fd [])) ''email'' = None"
    by (simp add: getError_lastNameValidation getError_firstNameValidation getError_Nil)
  finally show ?thesis .
qed

lemma getError_password:
  "getError (validateFormErrors fd) ''password'' =
      (if password fd = [] then Some ''Password is required''
       else if length (password fd) < 8 then Some ''Password must be at least 8 characters''
       else if \<not> test strengthRegex (password fd) then
         Some ''Password must contain at least one uppercase letter, one lowercase letter, and one number''
       else None)"
proof -
  have "getError (validateFormErrors fd) ''password'' =
        getError (passwordValidation fd
          (emailValidation fd (lastNameValidation fd (firstNameValidation fd [])))) ''password''"
    by (simp add: validateFormErrors_def getError_confirmPasswordValidation)
  also have "\<dots> = (if password fd = [] then Some ''Password is required''
       else if length (password fd) < 8 then Some ''Password must be at least 8 characters''
       else if \<not> test strengthRegex (password fd) then
         Some ''Password must contain at least one uppercase letter, one lowercase letter, and one number''
       else getError (emailValidation fd (lastNameValidation fd (firstNameValidation fd [])))
              ''password'')"
    by (simp add: passwordValidation_def getError_setError)
  also have "getError (emailValidation fd (lastNameValidation fd (firstNameValidation fd [])))
              ''password'' = None"
    by (simp add: getError_emailValidation getError_lastNameValidation
        getError_firstNameValidation getError_Nil)
  finally show ?thesis .
qed

text \<open>
  Claim C9, as the code has it. The registration form reports no email error
  exactly when the email is non-empty and contains a piece of the shape
  \<open>local@domain.tld\<close>; the pattern is not anchored, so characters around such a piece
  do not matter.
\<close>

theorem email_amended:
  "getError (fst (validateForm fd)) ''email'' = None \<longleftrightarrow>
     email fd \<noteq> [] \<and> containsEmailShape (email fd)"
  by (simp add: validateForm_def getError_email test_emailRegex)



lemma emailShape_nonspace: "emailShape s \<Longrightarrow> list_all isNonSpace s"
proof -
  have at: "isNonSpace 0x40" and dot: "isNonSpace 0x2E"
    by (simp_all add: isNonSpace_def isSpace_def)
  assume "emailShape s"
  then obtain l d t where "s = l @ 0x40 # d @ 0x2E # t"
      "list_all isNonSpace l" "list_all isNonSpace d" "list_all isNonSpace t"
    unfolding emailShape_def by blast
  with at dot show ?thesis by simp
qed

text \<open>
  Claim C9 as stated fails: \<open>see a@b.co now\<close> is not of the shape, it only contains
  \<open>a@b.co\<close> between other words, and the form reports no email error for it.
\<close>

theorem email_counterexample:
  "getError (fst (validateForm
      \<lparr>firstName = js ''Ann'', lastName = js ''Lee'', email = js ''see a@b.co now'',
       password = js ''Secret123'', confirmPassword = js ''Secret123''\<rparr>)) ''email'' = None \<and>
   js ''see a@b.co now'' \<noteq> [] \<and>
   \<not> emailShape (js ''see a@b.co now'')"
proof -
  have "\<not> list_all isNonSpace (js ''see a@b.co now'')"
    by code_simp
  then have "\<not> emailShape (js ''see a@b.co now'')"
    using emailShape_nonspace by blast
  moreover have "test emailRegex (js ''see a@b.co now'')"
    by code_simp
  moreover have "js ''see a@b.co now'' \<noteq> []"
    by (simp add: js_def)
  ultimately show ?thesis
    by (simp add: validateForm_def getError_email)
qed

text \<open>
  Claim C5 at a password of eleven characters with lowercase letters, an uppercase letter
  and a digit, the uppercase letter and the digit after a line separator (U+2028): the
  form reports that the password lacks one of the three, because the dot of the pattern
  does not cross a line terminator.
\<close>

theorem strength_failing_input:
  "getError (fst (validateForm
      \<lparr>firstName = js ''Ann'', lastName = js ''Lee'', email = js ''ann@lee.io'',
       password = js ''abcdefgh'' @ [0x2028] @ js ''A1'',
       confirmPassword = js ''abcdefgh'' @ [0x2028] @ js ''A1''\<rparr>)) ''password'' =
     Some ''Password must contain at least one uppercase letter, one lowercase letter, and one number'' \<and>
   length (js ''abcdefgh'' @ [0x2028] @ js ''A1'') \<ge> 8 \<and>
   list_ex isLower (js ''abcdefgh'' @ [0x2028] @ js ''A1'') \<and>
   list_ex isUpper (js ''abcdefgh'' @ [0x2028] @ js ''A1'') \<and>
   list_ex isDigit (js ''abcdefgh'' @ [0x2028] @ js ''A1'')"
proof -
  have "\<not> test strengthRegex (js ''abcdefgh'' @ [0x2028] @ js ''A1'')"
    by code_simp
  moreover have "list_ex isLower (js ''abcdefgh'' @ [0x2028] @ js ''A1'')"
    "list_ex isUpper (js ''abcdefgh'' @ [0x2028] @ js ''A1'')"
    "list_ex isDigit (js ''abcdefgh'' @ [0x2028] @ js ''A1'')"
    by code_simp+
  moreover have "length (js ''abcdefgh'' @ [0x2028] @ js ''A1'') = 11"
    by (simp add: js_def)
  ultimately show ?thesis
    by (simp add: validateForm_def getError_password)
qed

text \<open>
  Away from line terminators the strength rule is the one of the claim: a password
  that passes has the three kinds of character, and a password without a line terminator
  that has them passes.
\<close>

lemma matchHere_lookahead_class:
  "matchHere [Many0 p, One q] s \<longleftrightarrow> (\<exists>xs c ys. s = xs @ c # ys \<and> list_all p xs \<and> q c)"
  unfolding matchHere_Many0 matchHere_One by auto

lemma matchHere_strengthRegex:
  "matchHere strengthRegex s \<longleftrightarrow>
     (\<exists>xs c ys. s = xs @ c # ys \<and> list_all isDot xs \<and> isLower c) \<and>
     (\<exists>xs c ys. s = xs @ c # ys \<and> list_all isDot xs \<and> isUpper c) \<and>
     (\<exists>xs c ys. s = xs @ c # ys \<and> list_all isDot xs \<and> isDigit c)"
  by (simp add: strengthRegex_def matchHere_lookahead_class)

lemma class_occurs:
  "\<exists>xs c ys. s = xs @ c # ys \<and> list_all p xs \<and> q c \<Longrightarrow> list_ex q s"
  by (auto simp: list_ex_iff)

lemma strength_sound:
  assumes "test strengthRegex s"
  shows "list_ex isLower s \<and> list_ex isUpper s \<and> list_ex isDigit s"
proof -
  from assms obtain pre ys where s: "s = pre @ ys" and m: "matchHere strengthRegex ys"
    unfolding test_iff by blast
  from m have "list_ex isLower ys" "list_ex isUpper ys" "list_ex isDigit ys"
    unfolding matchHere_strengthRegex by (blast intro: class_occurs)+
  with s show ?thesis by (auto simp: list_ex_iff)
qed

lemma single_line_class:
  assumes "\<not> list_ex isLineTerminator s" and "list_ex q s"
  shows "\<exists>xs c ys. s = xs @ c # ys \<and> list_all isDot xs \<and> q c"
proof -
  from assms(2) obtain c where "c \<in> set s" "q c" unfolding list_ex_iff by blast
  then obtain xs ys where s: "s = xs @ c # ys" by (meson split_list)
  with assms(1) have "list_all isDot xs"
    by (auto simp: list_ex_iff list_all_iff isDot_def)
  with s \<open>q c\<close> show ?thesis by blast
qed

lemma strength_complete_single_line:
  assumes "\<not> list_ex isLineTerminator s"
    and "list_ex isLower s" "list_ex isUpper s" "list_ex isDigit s"
  shows "test strengthRegex s"
proof -
  have "matchHere strengthRegex s"
    unfolding matchHere_strengthRegex
    using single_line_class [OF assms(1)] assms(2-4) by blast
  then have "s = [] @ s \<and> matchHere strengthRegex s" by simp
  then show ?thesis unfolding test_iff by blast
qed

lemma password_strength_single_line:
  assumes "\<not> list_ex isLineTerminator (password fd)"
  shows "getError (fst (validateForm fd)) ''password'' = None \<longleftrightarrow>
           8 \<le> length (password fd) \<and> list_ex isLower (password fd) \<and>
           list_ex isUpper (password fd) \<and> list_ex isDigit (password fd)"
proof -
  have "test strengthRegex (password fd) \<longleftrightarrow>
          list_ex isLower (password fd) \<and> list_ex isUpper (password fd) \<and>
          list_ex isDigit (password fd)"
    using strength_sound strength_complete_single_line [OF assms] by blast
  then show ?thesis
    by (auto simp: validateForm_def getError_password)
qed

lemma getError_confirmPassword:
  "getError (validatePasswordErrors pd confirm) ''confirmPassword'' =
      (if confirm = [] then Some ''Please confirm your new password''
       else if newPassword pd \<noteq> confirm then Some ''Passwords do not match'' else None)"
proof -
  have "getError (validatePasswordErrors pd confirm) ''confirmPassword'' =
        getError (confirmPasswordCheck pd confirm
          (newPasswordCheck pd (currentPasswordCheck pd []))) ''confirmPassword''"
    by (simp add: validatePasswordErrors_def samePasswordCheck_def getError_setError)
  also have "\<dots> = (if confirm = [] then Some ''Please confirm your new password''
       else if newPassword pd \<noteq> confirm then Some ''Passwords do not match''
       else getError (newPasswordCheck pd (currentPasswordCheck pd [])) ''confirmPassword'')"
    by (simp add: confirmPasswordCheck_def getError_setError)
  also have "getError (newPasswordCheck pd (currentPasswordCheck pd [])) ''confirmPassword'' = None"
    by (simp add: newPasswordCheck_def currentPasswordCheck_def getError_setError getError_Nil)
  finally show ?thesis .
qed

lemma getError_newPassword_same:
  "currentPassword pd = newPassword pd \<Longrightarrow>
   getError (validatePasswordErrors pd confirm) ''newPassword'' =
     Some ''New password must be different from current password''"
  by (simp add: validatePasswordErrors_def samePasswordCheck_def getError_setError)

text \<open>
  Claim C6. In the password change form, a confirmation different from the new
  password gives a \<open>confirmPassword\<close> error; a new password equal to the current one
  gives a \<open>newPassword\<close> error, whatever the strength of the new password; and the
  validator returns true exactly when there are no errors.
\<close>

theorem validatePassword_mismatch_reuse:
  "(newPassword pd \<noteq> confirm \<longrightarrow>
      getError (fst (validatePassword pd confirm)) ''confirmPassword'' \<noteq> None) \<and>
   (currentPassword pd = newPassword pd \<longrightarrow>
      getError (fst (validatePassword pd confirm)) ''newPassword'' =
        Some ''New password must be different from current password'') \<and>
   (snd (validatePassword pd confirm) \<longleftrightarrow> fst (validatePassword pd confirm) = [])"
  by (simp add: validatePassword_def getError_confirmPassword getError_newPassword_same)

text \<open>
  Claim C6 at current and new password \<open>abc\<close> with confirmation \<open>Abcdefg1\<close>.
\<close>

theorem validatePassword_mismatch_reuse_witness:
  "newPassword \<lparr>currentPassword = js ''abc'', newPassword = js ''abc''\<rparr> \<noteq> js ''Abcdefg1'' \<and>
   currentPassword \<lparr>currentPassword = js ''abc'', newPassword = js ''abc''\<rparr> =
     newPassword \<lparr>currentPassword = js ''abc'', newPassword = js ''abc''\<rparr> \<and>
   getError (fst (validatePassword \<lparr>currentPassword = js ''abc'', newPassword = js ''abc''\<rparr>
      (js ''Abcdefg1''))) ''confirmPassword'' \<noteq> None \<and>
   getError (fst (validatePassword \<lparr>currentPassword = js ''abc'', newPassword = js ''abc''\<rparr>
      (js ''Abcdefg1''))) ''newPassword'' =
     Some ''New password must be different from current password'' \<and>
   \<not> snd (validatePassword \<lparr>currentPassword = js ''abc'', newPassword = js ''abc''\<rparr>
      (js ''Abcdefg1''))"
proof -
  have ne: "newPassword \<lparr>currentPassword = js ''abc'', newPassword = js ''abc''\<rparr> \<noteq> js ''Abcdefg1''"
    by (simp add: js_def)
  have eq: "currentPassword \<lparr>currentPassword = js ''abc'', newPassword = js ''abc''\<rparr> =
     newPassword \<lparr>currentPassword = js ''abc'', newPassword = js ''abc''\<rparr>"
    by simp
  note t = validatePassword_mismatch_reuse
    [of "\<lparr>currentPassword = js ''abc'', newPassword = js ''abc''\<rparr>" "js ''Abcdefg1''"]
  from t ne have 1: "getError (fst (validatePassword
      \<lparr>currentPassword = js ''abc'', newPassword = js ''abc''\<rparr> (js ''Abcdefg1'')))
      ''confirmPassword'' \<noteq> None" by blast
  from t eq have 2: "getError (fst (validatePassword
      \<lparr>currentPassword = js ''abc'', newPassword = js ''abc''\<rparr> (js ''Abcdefg1'')))
      ''newPassword'' = Some ''New password must be different from current password''" by blast
  from 2 have "fst (validatePassword
      \<lparr>currentPassword = js ''abc'', newPassword = js ''abc''\<rparr> (js ''Abcdefg1'')) \<noteq> []"
    by (auto simp: getError_def)
  with t have 3: "\<not> snd (validatePassword
      \<lparr>currentPassword = js ''abc'', newPassword = js ''abc''\<rparr> (js ''Abcdefg1''))" by blast
  from ne eq 1 2 3 show ?thesis by blast
qed

section \<open>Session store\<close>

lemma call_keeps_invariant:
  assumes "isAuthenticated s = (token s \<noteq> None)" and "token s \<noteq> None \<longrightarrow> user s \<noteq> None"
  shows "isAuthenticated (call c s) = (token (call c s) \<noteq> None) \<and>
         (token (call c s) \<noteq> None \<longrightarrow> user (call c s) \<noteq> None)"
  using assms by (cases c) (simp_all add: login_def logout_def updateUser_def setLoading_def)

lemma observable_invariant:
  assumes "isAuthenticated s = (token s \<noteq> None)" and "token s \<noteq> None \<longrightarrow> user s \<noteq> None"
  shows "\<forall>s' \<in> set (observable s cs).
           isAuthenticated s' = (token s' \<noteq> None) \<and> (token s' \<noteq> None \<longrightarrow> user s' \<noteq> None)"
  using assms
proof (induction cs arbitrary: s)
  case Nil
  then show ?case by simp
next
  case (Cons c cs)
  from call_keeps_invariant [OF Cons.prems, of c]
  have "\<forall>s' \<in> set (observable (call c s) cs).
           isAuthenticated s' = (token s' \<noteq> None) \<and> (token s' \<noteq> None \<longrightarrow> user s' \<noteq> None)"
    using Cons.IH by blast
  with Cons.prems show ?case by simp
qed

text \<open>
  Claim C1. From the empty session, after any sequence of \<open>login\<close>, \<open>logout\<close>,
  \<open>updateUser\<close> (and \<open>setLoading\<close>) calls, in the starting state and after every call,
  \<open>isAuthenticated\<close> equals "token is present and user is present"; so it is never
  true while one of them is null.
\<close>

theorem session_invariant:
  "\<forall>s \<in> set (observable initialAuthState cs).
     isAuthenticated s = (token s \<noteq> None \<and> user s \<noteq> None)"
proof -
  have "\<forall>s' \<in> set (observable initialAuthState cs).
           isAuthenticated s' = (token s' \<noteq> None) \<and> (token s' \<noteq> None \<longrightarrow> user s' \<noteq> None)"
    by (rule observable_invariant) (simp_all add: initialAuthState_def)
  then show ?thesis by blast
qed

text \<open>
  Claim C1 at the calls \<open>login("abc", customer)\<close>, \<open>logout()\<close>: the state after the
  login is observable, authenticated, and holds both token and user.
\<close>

theorem session_invariant_witness:
  "login (js ''abc'') customer initialAuthState
     \<in> set (observable initialAuthState [Login (js ''abc'') customer, Logout]) \<and>
   isAuthenticated (login (js ''abc'') customer initialAuthState) \<and>
   token (login (js ''abc'') customer initialAuthState) \<noteq> None \<and>
   user (login (js ''abc'') customer initialAuthState) \<noteq> None"
proof -
  have mem: "login (js ''abc'') customer initialAuthState
      \<in> set (observable initialAuthState [Login (js ''abc'') customer, Logout])"
    by simp
  have auth: "isAuthenticated (login (js ''abc'') customer initialAuthState)"
    by (simp add: login_def)
  from session_invariant [of "[Login (js ''abc'') customer, Logout]"] mem
  have "isAuthenticated (login (js ''abc'') customer initialAuthState) =
        (token (login (js ''abc'') customer initialAuthState) \<noteq> None \<and>
         user (login (js ''abc'') customer initialAuthState) \<noteq> None)"
    by blast
  with mem auth show ?thesis by blast
qed

section \<open>HTTP client\<close>












lemma status_getProp:
  "responseStatus error = JNum n \<Longrightarrow>
   \<exists>response. getProp error ''response'' = Inr response \<and> optProp response ''status'' = JNum n \<and> truthy response"
  unfolding responseStatus_def
  by (cases error; simp) (cases "optProp error ''response''"; simp)

lemma responseStatus_statusError: "responseStatus (statusError n body) = JNum n"
  by (simp add: responseStatus_def statusError_def)

text \<open>
  Claim C2, as the code has it. For every response with status 401 the handler calls
  \<open>logout()\<close>, so that the session holds neither token nor user, then, if a \<open>window\<close>
  exists (the code is not running during server-side rendering), sets
  \<open>window.location.href\<close> to \<open>/login\<close>, and rejects with the same error. Nothing else
  happens.
\<close>

theorem onRejected_401:
  assumes "responseStatus error = JNum 401"
  shows "onRejected error w =
     (w\<lparr>authStore := logout (authStore w),
        effects := effects w @ Called_logout #
          (if hasWindow w then [Set_location_href (js ''/login'')] else [])\<rparr>,
      Promise_reject error) \<and>
     token (authStore (fst (onRejected error w))) = None \<and>
     user (authStore (fst (onRejected error w))) = None"
proof -
  from status_getProp [OF assms] obtain response where
    "getProp error ''response'' = Inr response" "optProp response ''status'' = JNum 401" "truthy response"
    by blast
  then show ?thesis
    by (simp add: onRejected_def Let_def callLogout_def perform_def logout_def)
qed

text \<open>
  Claim C2 in the browser, with the customer logged in.
\<close>

theorem onRejected_401_witness:
  "responseStatus (statusError 401 []) = JNum 401 \<and>
   onRejected (statusError 401 []) (inBrowser customerSession) =
     (\<lparr>authStore = \<lparr>token = None, user = None, isLoading = False, isAuthenticated = False\<rparr>,
       hasWindow = True, effects = [Called_logout, Set_location_href (js ''/login'')]\<rparr>,
      Promise_reject (statusError 401 []))"
  using responseStatus_statusError [of 401 "[]"]
    onRejected_401 [OF responseStatus_statusError [of 401 "[]"], of "inBrowser customerSession"]
  by (simp add: logout_def inBrowser_def customerSession_def)

text \<open>
  Claim C2 as stated fails where no \<open>window\<close> exists: a response with status 401
  logs the session out and no navigation follows.
\<close>

theorem onRejected_401_counterexample:
  "responseStatus (statusError 401 []) = JNum 401 \<and>
   effects (fst (onRejected (statusError 401 []) (onServer customerSession))) = [Called_logout]"
  by (simp add: responseStatus_statusError)
     (simp add: statusError_def onServer_def onRejected_def Let_def callLogout_def perform_def)

text \<open>
  Claim C3. For every response with status 403 the handler leaves the session store as
  it is (no logout, token and user kept), only writes to the console, and rejects with
  the same error.
\<close>

theorem onRejected_403:
  assumes "responseStatus error = JNum 403"
  shows "onRejected error w =
     (w\<lparr>effects := effects w @ [Console_error ''Access forbidden: Insufficient permissions'']\<rparr>,
      Promise_reject error) \<and>
     authStore (fst (onRejected error w)) = authStore w"
proof -
  from status_getProp [OF assms] obtain response where
    "getProp error ''response'' = Inr response" "optProp response ''status'' = JNum 403" "truthy response"
    by blast
  then show ?thesis
    by (simp add: onRejected_def Let_def perform_def)
qed

text \<open>
  Claim C3 in the browser, with the customer logged in.
\<close>

theorem onRejected_403_witness:
  "responseStatus (statusError 403 []) = JNum 403 \<and>
   onRejected (statusError 403 []) (inBrowser customerSession) =
     (\<lparr>authStore = customerSession, hasWindow = True,
       effects = [Console_error ''Access forbidden: Insufficient permissions'']\<rparr>,
      Promise_reject (statusError 403 []))"
  using responseStatus_statusError [of 403 "[]"]
    onRejected_403 [OF responseStatus_statusError [of 403 "[]"], of "inBrowser customerSession"]
  by (simp add: inBrowser_def)

section \<open>Route guard\<close>

lemma runEffects_settled:
  "token (authStore (initializeAuth f g)) = token (authStore g) \<Longrightarrow>
   user (authStore (initializeAuth f g)) = user (authStore g) \<Longrightarrow>
   runEffects f g = initializeAuth f g"
  by (subst runEffects.simps) (simp add: Let_def)

lemma initializeAuth_no_token:
  "token (authStore w) = None \<Longrightarrow>
   initializeAuth f (mount w) =
     \<lparr>authStore = setLoading False (authStore w), hasWindow = hasWindow w,
      effects = [Router_push (js ''/login'')], isInitialized = False\<rparr>"
  by (simp add: initializeAuth_def mount_def Let_def perform_def setLoading_def)

lemma initializeAuth_cached_user:
  "token (authStore w) = Some t \<Longrightarrow> t \<noteq> [] \<Longrightarrow> user (authStore w) = Some u \<Longrightarrow>
   initializeAuth f (mount w) =
     \<lparr>authStore = setLoading False (authStore w), hasWindow = hasWindow w,
      effects = [], isInitialized = True\<rparr>"
  by (simp add: initializeAuth_def mount_def Let_def perform_def setLoading_def)

lemma runEffects_no_token:
  assumes "token (authStore w) = None"
  shows "runEffects f (mount w) =
     \<lparr>authStore = setLoading False (authStore w), hasWindow = hasWindow w,
      effects = [Router_push (js ''/login'')], isInitialized = False\<rparr>"
proof -
  have "runEffects f (mount w) = initializeAuth f (mount w)"
    by (rule runEffects_settled)
       (simp_all add: initializeAuth_no_token [OF assms] setLoading_def, simp_all add: mount_def)
  then show ?thesis by (simp add: initializeAuth_no_token [OF assms])
qed

lemma runEffects_cached_user:
  assumes "token (authStore w) = Some t" "t \<noteq> []" "user (authStore w) = Some u"
  shows "runEffects f (mount w) =
     \<lparr>authStore = setLoading False (authStore w), hasWindow = hasWindow w,
      effects = [], isInitialized = True\<rparr>"
proof -
  have "runEffects f (mount w) = initializeAuth f (mount w)"
    by (rule runEffects_settled)
       (simp_all add: initializeAuth_cached_user [OF assms] setLoading_def, simp_all add: mount_def)
  then show ?thesis by (simp add: initializeAuth_cached_user [OF assms])
qed

text \<open>
  Claim C8. A guard mounted while the session holds no token is initializing, runs
  its effect once, which issues exactly one \<open>router.push("/login")\<close> and nothing else,
  and is then unauthenticated: \<open>isInitialized\<close> stays false (the loading indicator
  stays), the token is still absent, and the effect does not run again.
\<close>

theorem guard_no_token:
  assumes "token (authStore w) = None"
  shows "guardState props (mount w) = Initializing \<and>
         runEffects getProfile (mount w) = initializeAuth getProfile (mount w) \<and>
         effects (runEffects getProfile (mount w)) = [Router_push (js ''/login'')] \<and>
         guardState props (runEffects getProfile (mount w)) = Unauthenticated \<and>
         render props (runEffects getProfile (mount w)) = LoadingSpinner \<and>
         token (authStore (runEffects getProfile (mount w))) = None"
proof -
  have "guardState props (mount w) = Initializing"
    by (simp add: guardState_def mount_def)
  moreover have "guardState props \<lparr>authStore = setLoading False (authStore w),
      hasWindow = hasWindow w, effects = [Router_push (js ''/login'')],
      isInitialized = False\<rparr> = Unauthenticated"
    by (simp add: guardState_def)
  moreover have "render props \<lparr>authStore = setLoading False (authStore w),
      hasWindow = hasWindow w, effects = [Router_push (js ''/login'')],
      isInitialized = False\<rparr> = LoadingSpinner"
    by (simp add: render_def)
  ultimately show ?thesis
    using assms
    by (simp add: runEffects_no_token initializeAuth_no_token setLoading_def)
qed

text \<open>
  Claim C8 at the empty session in the browser.
\<close>

theorem guard_no_token_witness:
  "token (authStore (inBrowser initialAuthState)) = None \<and>
   guardState (AuthenticatedOnly ''page'') (mount (inBrowser initialAuthState)) = Initializing \<and>
   effects (runEffects (Inr customer) (mount (inBrowser initialAuthState))) =
     [Router_push (js ''/login'')] \<and>
   guardState (AuthenticatedOnly ''page'')
     (runEffects (Inr customer) (mount (inBrowser initialAuthState))) = Unauthenticated"
proof -
  have h: "token (authStore (inBrowser initialAuthState)) = None"
    by (simp add: inBrowser_def initialAuthState_def)
  from guard_no_token [OF h, of "AuthenticatedOnly ''page''" "Inr customer"] h
  show ?thesis by blast
qed

lemma hasRole_some: "user s = Some u \<Longrightarrow> list_ex (hasRole s) rs \<longleftrightarrow> roleString (role u) \<in> set rs"
  by (auto simp: hasRole_def list_ex_iff)

text \<open>
  Claim C4, as the code has it. A guard mounted on a session that holds a non-empty
  token and a cached user and is marked authenticated issues no redirect; if the
  required roles are empty or contain the user's role it is authorized and renders its
  children; otherwise it is forbidden and renders the \<open>fallback\<close> it was given, or the
  403 view when it was given none.
\<close>

theorem guard_role_evaluation:
  assumes "token (authStore w) = Some t" and "t \<noteq> []" and "user (authStore w) = Some u"
    and "isAuthenticated (authStore w)"
  shows "effects (runEffects getProfile (mount w)) = [] \<and>
         (if requiredRole props = [] \<or> roleString (role u) \<in> set (requiredRole props)
          then guardState props (runEffects getProfile (mount w)) = Authorized \<and>
               render props (runEffects getProfile (mount w)) = Children (children props)
          else guardState props (runEffects getProfile (mount w)) = Forbidden \<and>
               render props (runEffects getProfile (mount w)) =
                 (case fallback props of None \<Rightarrow> AccessForbidden | Some f \<Rightarrow> Fallback f))"
proof -
  have s: "user (setLoading False (authStore w)) = Some u"
    "isAuthenticated (setLoading False (authStore w))"
    using assms by (simp_all add: setLoading_def)
  show ?thesis
    unfolding runEffects_cached_user [OF assms(1-3)]
    using s by (simp add: guardState_def render_def hasRole_some)
qed

text \<open>
  Claim C4 at the spec's scenario: token \<open>abc\<close>, cached customer, \<open>AdminOnly\<close> is
  forbidden with the 403 view and no redirect; \<open>AuthenticatedOnly\<close> is authorized.
\<close>

theorem guard_role_evaluation_witness:
  "token (authStore (inBrowser customerSession)) = Some (js ''abc'') \<and> js ''abc'' \<noteq> [] \<and>
   user (authStore (inBrowser customerSession)) = Some customer \<and>
   isAuthenticated (authStore (inBrowser customerSession)) \<and>
   effects (runEffects (Inl JUndefined) (mount (inBrowser customerSession))) = [] \<and>
   guardState (AdminOnly ''page'')
     (runEffects (Inl JUndefined) (mount (inBrowser customerSession))) = Forbidden \<and>
   render (AdminOnly ''page'')
     (runEffects (Inl JUndefined) (mount (inBrowser customerSession))) = AccessForbidden \<and>
   guardState (AuthenticatedOnly ''page'')
     (runEffects (Inl JUndefined) (mount (inBrowser customerSession))) = Authorized \<and>
   render (AuthenticatedOnly ''page'')
     (runEffects (Inl JUndefined) (mount (inBrowser customerSession))) = Children ''page''"
proof -
  have h: "token (authStore (inBrowser customerSession)) = Some (js ''abc'')" "js ''abc'' \<noteq> []"
    "user (authStore (inBrowser customerSession)) = Some customer"
    "isAuthenticated (authStore (inBrowser customerSession))"
    by (simp_all add: inBrowser_def customerSession_def js_def)
  have r: "roleString (role customer) \<notin> set (requiredRole (AdminOnly ''page''))"
    "requiredRole (AdminOnly ''page'') \<noteq> []" "fallback (AdminOnly ''page'') = None"
    "requiredRole (AuthenticatedOnly ''page'') = []"
    "children (AuthenticatedOnly ''page'') = ''page''"
    by (simp_all add: customer_def AdminOnly_def AuthenticatedOnly_def js_def)
  from guard_role_evaluation [OF h, of "Inl JUndefined" "AdminOnly ''page''"]
    guard_role_evaluation [OF h, of "Inl JUndefined" "AuthenticatedOnly ''page''"] h r
  show ?thesis by simp
qed

text \<open>
  Claim C4 as stated fails for a guard that was given a \<open>fallback\<close>: the customer on
  an admin-only guard sees the fallback, not the 403 view.
\<close>

theorem guard_role_evaluation_counterexample:
  "token (authStore (inBrowser customerSession)) = Some (js ''abc'') \<and>
   user (authStore (inBrowser customerSession)) = Some customer \<and>
   role customer = ROLE_CUSTOMER \<and>
   render \<lparr>children = ''page'', requiredRole = [js ''ROLE_ADMIN''], fallback = Some ''upgrade''\<rparr>
     (runEffects (Inl JUndefined) (mount (inBrowser customerSession))) = Fallback ''upgrade'' \<and>
   render \<lparr>children = ''page'', requiredRole = [js ''ROLE_ADMIN''], fallback = Some ''upgrade''\<rparr>
     (runEffects (Inl JUndefined) (mount (inBrowser customerSession))) \<noteq> AccessForbidden"
proof -
  have h: "token (authStore (inBrowser customerSession)) = Some (js ''abc'')" "js ''abc'' \<noteq> []"
    "user (authStore (inBrowser customerSession)) = Some customer"
    by (simp_all add: inBrowser_def customerSession_def js_def)
  have "render \<lparr>children = ''page'', requiredRole = [js ''ROLE_ADMIN''], fallback = Some ''upgrade''\<rparr>
     (runEffects (Inl JUndefined) (mount (inBrowser customerSession))) = Fallback ''upgrade''"
    unfolding runEffects_cached_user [OF h]
    by (simp add: render_def inBrowser_def customerSession_def setLoading_def hasRole_def
        customer_def js_def)
  with h show ?thesis by (simp add: customer_def)
qed

end
